theory Spec2Isabelle
  imports Main "HOL-Library.Sublist"
begin

section \<open>The viewer-request function\<close>

text \<open>
  The CloudFront function the stack of \<^verbatim>\<open>src/unnamed/part_000\<close> attaches to the
  distribution is given inline as JavaScript:
  \<^verbatim>\<open>
  function handler(event) {
    var request = event.request;
    var uri = request.uri;
    if (uri && uri.length > 1) {
      if (uri.charAt(uri.length - 1) === '/') {
        request.uri = uri + 'index.html';
      } else if (uri.indexOf('.') === -1) {
        request.uri = uri + '/index.html';
      }
    }
    return request;
  }
  \<close>
  A request and an event are records; the fields the function does not touch (method,
  headers, query string, ...) are the extension part of the record scheme. A URI is a
  string; CloudFront hands the function a percent-encoded path.
\<close>

record request =
  uri :: string

record 'r event =
  request :: 'r

text \<open>
  \<^verbatim>\<open>String.prototype.charAt\<close>: the one-character string at the index, the empty
  string when the index is out of range.
\<close>

definition charAt :: "string \<Rightarrow> int \<Rightarrow> string" where
  "charAt s i = (if 0 \<le> i \<and> i < int (length s) then [s ! nat i] else [])"

text \<open>
  \<^verbatim>\<open>String.prototype.indexOf\<close>: the first index at which the search string occurs,
  \<open>-1\<close> when it does not occur.
\<close>

fun indexOfFrom :: "string \<Rightarrow> string \<Rightarrow> nat \<Rightarrow> int" where
  "indexOfFrom [] sub i = (if sub = [] then int i else - 1)"
| "indexOfFrom (c # cs) sub i =
     (if prefix sub (c # cs) then int i else indexOfFrom cs sub (Suc i))"

definition indexOf :: "string \<Rightarrow> string \<Rightarrow> int" where
  "indexOf s sub = indexOfFrom s sub 0"

text \<open>
  JavaScript's truthiness of a string: the empty string is falsy.
\<close>

definition truthy :: "string \<Rightarrow> bool" where
  "truthy s = (s \<noteq> [])"

definition handler :: "('a request_scheme) event \<Rightarrow> 'a request_scheme" where
  "handler event =
     (let request = request event;
          uri = uri request
      in if truthy uri \<and> int (length uri) > 1 then
           (if charAt uri (int (length uri) - 1) = ''/'' then
              request\<lparr>uri := uri @ ''index.html''\<rparr>
            else if indexOf uri ''.'' = - 1 then
              request\<lparr>uri := uri @ ''/index.html''\<rparr>
            else request)
         else request)"

text \<open>
  A path splits at its last slash: the directory part runs up to and including that
  slash, the final segment is what follows it.
\<close>

definition finalSegment :: "string \<Rightarrow> string" where
  "finalSegment p = rev (takeWhile (\<lambda>c. c \<noteq> CHR ''/'') (rev p))"

definition directoryPart :: "string \<Rightarrow> string" where
  "directoryPart p = rev (dropWhile (\<lambda>c. c \<noteq> CHR ''/'') (rev p))"

section \<open>The resources the stack declares\<close>

text \<open>
  The repository holds two versions of the stack class \<^verbatim>\<open>FowlerDevStack\<close>:
  \<^verbatim>\<open>src/infra/lib/fowler-dev-stack.ts\<close>, which binds the distribution to the bucket
  through an origin access identity, and \<^verbatim>\<open>src/unnamed/part_000\<close>, which binds it
  through an origin access control. Both are constructors that run a fixed sequence of
  statements against the construct tree; the model of a constructor is the list of those
  statements in source order.

  A value that the provider assigns at deployment (a bucket ARN, a distribution
  identifier) is a reference to an attribute of a construct; a JavaScript template
  literal is the list of its fragments.
\<close>

datatype frag = Lit string | Ref string string

type_synonym token_string = "frag list"

fun resolveFrag :: "(string \<Rightarrow> string \<Rightarrow> string) \<Rightarrow> frag \<Rightarrow> string" where
  "resolveFrag \<rho> (Lit s) = s"
| "resolveFrag \<rho> (Ref c a) = \<rho> c a"

definition resolve :: "(string \<Rightarrow> string \<Rightarrow> string) \<Rightarrow> token_string \<Rightarrow> string" where
  "resolve \<rho> t = concat (map (resolveFrag \<rho>) t)"

record Environment =
  account :: string
  region :: string

record StackProps =
  env :: Environment

subsection \<open>Storage\<close>

record BlockPublicAccess =
  blockPublicAcls :: bool
  blockPublicPolicy :: bool
  ignorePublicAcls :: bool
  restrictPublicBuckets :: bool

definition BLOCK_ALL :: BlockPublicAccess where
  "BLOCK_ALL = \<lparr>blockPublicAcls = True, blockPublicPolicy = True,
                 ignorePublicAcls = True, restrictPublicBuckets = True\<rparr>"

datatype RemovalPolicy = DESTROY | RETAIN | SNAPSHOT

datatype BucketAccessControl = PRIVATE | PUBLIC_READ | PUBLIC_READ_WRITE | AUTHENTICATED_READ

record BucketProps =
  bucketName :: string
  websiteIndexDocument :: "string option"
  websiteErrorDocument :: "string option"
  accessControl :: "BucketAccessControl option"
  publicReadAccess :: bool
  blockPublicAccess :: BlockPublicAccess
  removalPolicy :: RemovalPolicy
  autoDeleteObjects :: bool

definition bucketArn :: "string \<Rightarrow> token_string" where
  "bucketArn bucket = [Ref bucket ''bucketArn'']"

definition arnForObjects :: "string \<Rightarrow> string \<Rightarrow> token_string" where
  "arnForObjects bucket keyPattern = bucketArn bucket @ [Lit (''/'' @ keyPattern)]"

subsection \<open>Access binding\<close>

record OriginAccessControlConfig =
  oacName :: string
  originAccessControlOriginType :: string
  signingBehavior :: string
  signingProtocol :: string
  oacDescription :: string

record OriginAccessIdentityProps =
  comment :: string

subsection \<open>Zone and certificate\<close>

datatype IHostedZone = FromLookup string

fun zoneName :: "IHostedZone \<Rightarrow> string" where
  "zoneName (FromLookup d) = d"

record DnsValidatedCertificateProps =
  certDomainName :: string
  hostedZone :: IHostedZone
  certRegion :: "string option"
  subjectAlternativeNames :: "string list"

subsection \<open>Distribution\<close>

datatype ViewerProtocolPolicy = HTTPS_ONLY | REDIRECT_TO_HTTPS | ALLOW_ALL

datatype CachePolicy = CACHING_OPTIMIZED | CACHING_DISABLED

datatype FunctionEventType = VIEWER_REQUEST | VIEWER_RESPONSE

record FunctionAssociation =
  assocFunction :: string
  eventType :: FunctionEventType

record S3Origin =
  originBucket :: string
  originAccessIdentity :: "string option"

record BehaviorOptions =
  origin :: S3Origin
  viewerProtocolPolicy :: ViewerProtocolPolicy
  cachePolicy :: CachePolicy
  functionAssociations :: "FunctionAssociation list"

datatype Duration = Seconds nat

definition minutes :: "nat \<Rightarrow> Duration" where
  "minutes n = Seconds (n * 60)"

fun toSeconds :: "Duration \<Rightarrow> nat" where
  "toSeconds (Seconds n) = n"

record ErrorResponse =
  httpStatus :: nat
  responseHttpStatus :: nat
  responsePagePath :: string
  ttl :: Duration

record DistributionProps =
  defaultBehavior :: BehaviorOptions
  domainNames :: "string list"
  certificate :: string
  defaultRootObject :: string
  errorResponses :: "ErrorResponse list"

definition distributionId :: "string \<Rightarrow> token_string" where
  "distributionId distribution = [Ref distribution ''distributionId'']"

definition distributionDomainName :: "string \<Rightarrow> token_string" where
  "distributionDomainName distribution = [Ref distribution ''distributionDomainName'']"

subsection \<open>Alias records\<close>

datatype RecordTarget = CloudFrontTarget string

record ARecordProps =
  zone :: IHostedZone
  recordName :: "string option"
  target :: RecordTarget

subsection \<open>Identity and policies\<close>

datatype Effect = ALLOW | DENY

datatype Principal =
    ServicePrincipal string
  | GrantPrincipalOf string
  | ArnPrincipal token_string
  | AnyPrincipal

type_synonym Conditions = "(string \<times> (string \<times> token_string) list) list"

record PolicyStatement =
  effect :: "Effect option"
  actions :: "string list"
  resources :: "token_string list"
  principals :: "Principal list"
  conditions :: Conditions

record UserProps =
  userName :: string

record PolicyProps =
  statements :: "PolicyStatement list"

record CfnOutputProps =
  outputValue :: token_string
  description :: string

subsection \<open>Constructs and constructor statements\<close>

datatype construct =
    Bucket BucketProps
  | CfnOriginAccessControl OriginAccessControlConfig
  | OriginAccessIdentity OriginAccessIdentityProps
  | HostedZone IHostedZone
  | DnsValidatedCertificate DnsValidatedCertificateProps
  | Function "request event \<Rightarrow> request"
  | Distribution DistributionProps
  | ARecord ARecordProps
  | User UserProps
  | Policy PolicyProps
  | CfnOutput CfnOutputProps

text \<open>
  A statement of a constructor: \<open>New i c\<close> is \<^verbatim>\<open>new C(this, i, props)\<close>; the others
  are the method calls the constructors make on constructs declared before, named by
  the identifier of the construct they are called on.
\<close>

datatype stmt =
    New string construct
  | GrantRead string string
  | AddPropertyOverride string string token_string
  | AddPropertyDeletionOverride string string
  | AddToResourcePolicy string PolicyStatement
  | AttachInlinePolicy string string

section \<open>The two constructors\<close>

text \<open>
  \<^verbatim>\<open>domainName.replace(/\./g, '-')\<close>: every occurrence of the character is
  replaced.
\<close>

definition replaceAll :: "char \<Rightarrow> string \<Rightarrow> string \<Rightarrow> string" where
  "replaceAll c r s = concat (map (\<lambda>x. if x = c then r else [x]) s)"

definition sanitizedDomain :: "string \<Rightarrow> string" where
  "sanitizedDomain domainName = replaceAll (CHR ''.'') ''-'' domainName"

text \<open>The bucket name of \<^verbatim>\<open>src/unnamed/part_000\<close>, lines 27 to 31.\<close>

definition bucketName_oac :: "string \<Rightarrow> string \<Rightarrow> string" where
  "bucketName_oac domainName accountId =
     sanitizedDomain domainName @ ''-'' @ accountId @ ''-hugo-site''"

text \<open>The bucket name of \<^verbatim>\<open>src/infra/lib/fowler-dev-stack.ts\<close>, lines 15 and 16.\<close>

definition bucketName_oai :: "string \<Rightarrow> string" where
  "bucketName_oai domainName = domainName @ ''-hugo-site''"

text \<open>
  The ARN both constructors build for the distribution:
  \<^verbatim>\<open>`arn:aws:cloudfront::${this.account}:distribution/${distribution.distributionId}`\<close>.
\<close>

definition distributionArn :: "string \<Rightarrow> string \<Rightarrow> token_string" where
  "distributionArn acct distribution =
     [Lit ''arn:aws:cloudfront::'', Lit acct, Lit '':distribution/''] @ distributionId distribution"

text \<open>The deployment policy, which is the same text in both files.\<close>

definition deployPolicy :: "string \<Rightarrow> PolicyProps" where
  "deployPolicy acct = \<lparr>statements = [
     \<lparr>effect = Some ALLOW,
      actions = [''s3:PutObject'', ''s3:PutObjectAcl'', ''s3:GetObject'',
                 ''s3:DeleteObject'', ''s3:ListBucket''],
      resources = [bucketArn ''SiteBucket'', bucketArn ''SiteBucket'' @ [Lit ''/*'']],
      principals = [], conditions = []\<rparr>,
     \<lparr>effect = Some ALLOW,
      actions = [''cloudfront:CreateInvalidation''],
      resources = [distributionArn acct ''Distribution''],
      principals = [], conditions = []\<rparr>]\<rparr>"

text \<open>The four outputs, also the same in both files.\<close>

definition outputs :: "stmt list" where
  "outputs = [
     New ''BucketName'' (CfnOutput \<lparr>outputValue = [Ref ''SiteBucket'' ''bucketName''],
                                     description = ''Name of the S3 bucket''\<rparr>),
     New ''DistributionId'' (CfnOutput \<lparr>outputValue = distributionId ''Distribution'',
                                         description = ''CloudFront Distribution ID''\<rparr>),
     New ''DistributionDomainName''
       (CfnOutput \<lparr>outputValue = distributionDomainName ''Distribution'',
                   description = ''CloudFront Distribution Domain Name''\<rparr>),
     New ''DeployUserName'' (CfnOutput \<lparr>outputValue = [Ref ''GitHubActionsUser'' ''userName''],
                                         description = ''IAM User for GitHub Actions''\<rparr>)]"

text \<open>
  The body of the constructor of \<^verbatim>\<open>src/unnamed/part_000\<close> (origin access control),
  as a function of the constant \<^verbatim>\<open>domainName\<close> it starts from.
\<close>

definition constructor_oac :: "string \<Rightarrow> StackProps \<Rightarrow> stmt list" where
  "constructor_oac domainName props =
     (let accountId = account (env props);
          hostedZone = FromLookup domainName
      in [
       New ''SiteBucket'' (Bucket \<lparr>
         bucketName = bucketName_oac domainName accountId,
         websiteIndexDocument = None, websiteErrorDocument = None, accessControl = None,
         publicReadAccess = False, blockPublicAccess = BLOCK_ALL,
         removalPolicy = DESTROY, autoDeleteObjects = True\<rparr>),
       New ''OAC'' (CfnOriginAccessControl \<lparr>
         oacName = domainName @ ''-oac'',
         originAccessControlOriginType = ''s3'',
         signingBehavior = ''always'',
         signingProtocol = ''sigv4'',
         oacDescription = ''OAC for '' @ domainName\<rparr>),
       New ''HostedZone'' (HostedZone hostedZone),
       New ''SiteCertificate'' (DnsValidatedCertificate \<lparr>
         certDomainName = domainName, hostedZone = hostedZone,
         certRegion = Some ''us-east-1'',
         subjectAlternativeNames = [''www.'' @ domainName]\<rparr>),
       New ''UrlRewriteFn'' (Function handler),
       New ''Distribution'' (Distribution \<lparr>
         defaultBehavior = \<lparr>
           origin = \<lparr>originBucket = ''SiteBucket'', originAccessIdentity = None\<rparr>,
           viewerProtocolPolicy = REDIRECT_TO_HTTPS,
           cachePolicy = CACHING_OPTIMIZED,
           functionAssociations =
             [\<lparr>assocFunction = ''UrlRewriteFn'', eventType = VIEWER_REQUEST\<rparr>]\<rparr>,
         domainNames = [domainName, ''www.'' @ domainName],
         certificate = ''SiteCertificate'',
         defaultRootObject = ''index.html'',
         errorResponses = [
           \<lparr>httpStatus = 403, responseHttpStatus = 404,
            responsePagePath = ''/404.html'', ttl = minutes 30\<rparr>,
           \<lparr>httpStatus = 404, responseHttpStatus = 404,
            responsePagePath = ''/404.html'', ttl = minutes 30\<rparr>]\<rparr>),
       AddPropertyOverride ''Distribution''
         ''DistributionConfig.Origins.0.OriginAccessControlId'' [Ref ''OAC'' ''attrId''],
       AddPropertyOverride ''Distribution''
         ''DistributionConfig.Origins.0.S3OriginConfig.OriginAccessIdentity'' [Lit []],
       AddPropertyDeletionOverride ''Distribution''
         ''DistributionConfig.Origins.0.CustomOriginConfig'',
       AddToResourcePolicy ''SiteBucket'' \<lparr>
         effect = None,
         actions = [''s3:GetObject''],
         resources = [arnForObjects ''SiteBucket'' ''*''],
         principals = [ServicePrincipal ''cloudfront.amazonaws.com''],
         conditions = [(''StringEquals'',
           [(''AWS:SourceArn'', distributionArn (account (env props)) ''Distribution'')])]\<rparr>,
       New ''AliasRecord'' (ARecord \<lparr>
         zone = hostedZone, recordName = None, target = CloudFrontTarget ''Distribution''\<rparr>),
       New ''WwwAliasRecord'' (ARecord \<lparr>
         zone = hostedZone, recordName = Some ''www'',
         target = CloudFrontTarget ''Distribution''\<rparr>),
       New ''GitHubActionsUser'' (User \<lparr>userName = domainName @ ''-github-actions''\<rparr>),
       New ''DeployPolicy'' (Policy (deployPolicy (account (env props)))),
       AttachInlinePolicy ''GitHubActionsUser'' ''DeployPolicy'']
      @ outputs)"

text \<open>
  The body of the constructor of \<^verbatim>\<open>src/infra/lib/fowler-dev-stack.ts\<close> (origin access
  identity).
\<close>

definition constructor_oai :: "string \<Rightarrow> StackProps \<Rightarrow> stmt list" where
  "constructor_oai domainName props =
     (let hostedZone = FromLookup domainName
      in [
       New ''SiteBucket'' (Bucket \<lparr>
         bucketName = bucketName_oai domainName,
         websiteIndexDocument = Some ''index.html'',
         websiteErrorDocument = Some ''404.html'', accessControl = None,
         publicReadAccess = False, blockPublicAccess = BLOCK_ALL,
         removalPolicy = DESTROY, autoDeleteObjects = True\<rparr>),
       New ''OAI'' (OriginAccessIdentity \<lparr>comment = ''OAI for '' @ domainName\<rparr>),
       GrantRead ''SiteBucket'' ''OAI'',
       New ''HostedZone'' (HostedZone hostedZone),
       New ''SiteCertificate'' (DnsValidatedCertificate \<lparr>
         certDomainName = domainName, hostedZone = hostedZone,
         certRegion = Some ''us-east-1'',
         subjectAlternativeNames = [''www.'' @ domainName]\<rparr>),
       New ''Distribution'' (Distribution \<lparr>
         defaultBehavior = \<lparr>
           origin = \<lparr>originBucket = ''SiteBucket'', originAccessIdentity = Some ''OAI''\<rparr>,
           viewerProtocolPolicy = REDIRECT_TO_HTTPS,
           cachePolicy = CACHING_OPTIMIZED,
           functionAssociations = []\<rparr>,
         domainNames = [domainName, ''www.'' @ domainName],
         certificate = ''SiteCertificate'',
         defaultRootObject = ''index.html'',
         errorResponses = [
           \<lparr>httpStatus = 404, responseHttpStatus = 404,
            responsePagePath = ''/404.html'', ttl = minutes 30\<rparr>]\<rparr>),
       New ''AliasRecord'' (ARecord \<lparr>
         zone = hostedZone, recordName = None, target = CloudFrontTarget ''Distribution''\<rparr>),
       New ''WwwAliasRecord'' (ARecord \<lparr>
         zone = hostedZone, recordName = Some ''www'',
         target = CloudFrontTarget ''Distribution''\<rparr>),
       New ''GitHubActionsUser'' (User \<lparr>userName = domainName @ ''-github-actions''\<rparr>),
       New ''DeployPolicy'' (Policy (deployPolicy (account (env props)))),
       AttachInlinePolicy ''GitHubActionsUser'' ''DeployPolicy'']
      @ outputs)"

text \<open>
  The constructors proper: \<^verbatim>\<open>const domainName = 'fowler.dev'\<close>, then the body. The
  construct identifier the stack is created under does not reach any statement.
\<close>

definition FowlerDevStack_oac :: "string \<Rightarrow> StackProps \<Rightarrow> stmt list" where
  "FowlerDevStack_oac stackId props = constructor_oac ''fowler.dev'' props"

definition FowlerDevStack_oai :: "string \<Rightarrow> StackProps \<Rightarrow> stmt list" where
  "FowlerDevStack_oai stackId props = constructor_oai ''fowler.dev'' props"

section \<open>Reading a constructor's statements\<close>

text \<open>The constructs a statement list declares, by kind, in source order.\<close>

fun declOf :: "stmt \<Rightarrow> (string \<times> construct) list" where
  "declOf (New i c) = [(i, c)]"
| "declOf _ = []"

definition constructs :: "stmt list \<Rightarrow> (string \<times> construct) list" where
  "constructs tr = concat (map declOf tr)"

fun asBucket :: "string \<times> construct \<Rightarrow> (string \<times> BucketProps) list" where
  "asBucket (i, Bucket p) = [(i, p)]"
| "asBucket _ = []"

fun asOriginAccessControl :: "string \<times> construct \<Rightarrow> (string \<times> OriginAccessControlConfig) list" where
  "asOriginAccessControl (i, CfnOriginAccessControl p) = [(i, p)]"
| "asOriginAccessControl _ = []"


fun asHostedZone :: "string \<times> construct \<Rightarrow> (string \<times> IHostedZone) list" where
  "asHostedZone (i, HostedZone z) = [(i, z)]"
| "asHostedZone _ = []"

fun asCertificate :: "string \<times> construct \<Rightarrow> (string \<times> DnsValidatedCertificateProps) list" where
  "asCertificate (i, DnsValidatedCertificate p) = [(i, p)]"
| "asCertificate _ = []"

fun asDistribution :: "string \<times> construct \<Rightarrow> (string \<times> DistributionProps) list" where
  "asDistribution (i, Distribution p) = [(i, p)]"
| "asDistribution _ = []"

fun asARecord :: "string \<times> construct \<Rightarrow> (string \<times> ARecordProps) list" where
  "asARecord (i, ARecord p) = [(i, p)]"
| "asARecord _ = []"

fun asUser :: "string \<times> construct \<Rightarrow> (string \<times> UserProps) list" where
  "asUser (i, User p) = [(i, p)]"
| "asUser _ = []"

fun asPolicy :: "string \<times> construct \<Rightarrow> (string \<times> PolicyProps) list" where
  "asPolicy (i, Policy p) = [(i, p)]"
| "asPolicy _ = []"

fun asCfnOutput :: "string \<times> construct \<Rightarrow> (string \<times> CfnOutputProps) list" where
  "asCfnOutput (i, CfnOutput p) = [(i, p)]"
| "asCfnOutput _ = []"

definition buckets :: "stmt list \<Rightarrow> (string \<times> BucketProps) list" where
  "buckets tr = concat (map asBucket (constructs tr))"

definition originAccessControls :: "stmt list \<Rightarrow> (string \<times> OriginAccessControlConfig) list" where
  "originAccessControls tr = concat (map asOriginAccessControl (constructs tr))"


definition hostedZones :: "stmt list \<Rightarrow> (string \<times> IHostedZone) list" where
  "hostedZones tr = concat (map asHostedZone (constructs tr))"

definition certificates :: "stmt list \<Rightarrow> (string \<times> DnsValidatedCertificateProps) list" where
  "certificates tr = concat (map asCertificate (constructs tr))"

definition distributions :: "stmt list \<Rightarrow> (string \<times> DistributionProps) list" where
  "distributions tr = concat (map asDistribution (constructs tr))"

definition aRecords :: "stmt list \<Rightarrow> (string \<times> ARecordProps) list" where
  "aRecords tr = concat (map asARecord (constructs tr))"

definition users :: "stmt list \<Rightarrow> (string \<times> UserProps) list" where
  "users tr = concat (map asUser (constructs tr))"

definition policies :: "stmt list \<Rightarrow> (string \<times> PolicyProps) list" where
  "policies tr = concat (map asPolicy (constructs tr))"

definition cfnOutputs :: "stmt list \<Rightarrow> (string \<times> CfnOutputProps) list" where
  "cfnOutputs tr = concat (map asCfnOutput (constructs tr))"

text \<open>
  An entry of a bucket's resource policy. The constructors themselves add statements
  with \<^verbatim>\<open>addToResourcePolicy\<close> and read grants with \<^verbatim>\<open>grantRead\<close>; a read grant
  names its grantee and carries no condition. The construct library adds two more kinds
  of entry on its own, without a condition either: for a bucket declared with
  \<^verbatim>\<open>autoDeleteObjects: true\<close>, a statement for the role of the handler that empties
  the bucket; and for an \<^verbatim>\<open>S3Origin\<close> on a bucket served through its REST endpoint,
  a statement that lets an origin access identity read the objects.
\<close>

datatype policy_entry =
    Statement PolicyStatement
  | ReadGrant string
  | AutoDeleteGrant
  | OriginIdentityGrant string

fun bucketPolicyOf :: "string \<Rightarrow> stmt \<Rightarrow> policy_entry list" where
  "bucketPolicyOf b (AddToResourcePolicy b' s) = (if b' = b then [Statement s] else [])"
| "bucketPolicyOf b (GrantRead b' g) = (if b' = b then [ReadGrant g] else [])"
| "bucketPolicyOf b _ = []"

definition bucketPolicy :: "string \<Rightarrow> stmt list \<Rightarrow> policy_entry list" where
  "bucketPolicy b tr = concat (map (bucketPolicyOf b) tr)"

fun entryPrincipals :: "policy_entry \<Rightarrow> Principal list" where
  "entryPrincipals (Statement s) = principals s"
| "entryPrincipals (ReadGrant g) = [GrantPrincipalOf g]"
| "entryPrincipals AutoDeleteGrant =
     [ArnPrincipal [Ref ''Custom::S3AutoDeleteObjectsCustomResourceProvider'' ''roleArn'']]"
| "entryPrincipals (OriginIdentityGrant g) = [GrantPrincipalOf g]"





text \<open>
  What an action named in the deployment policy permits, after the provider's
  classification of its actions.
\<close>

datatype action_kind =
    ObjectRead | ObjectWrite | ObjectDelete | BucketList
  | PermissionsManagement | CacheInvalidation

definition actionKind :: "string \<Rightarrow> action_kind option" where
  "actionKind a =
     (if a = ''s3:GetObject'' then Some ObjectRead
      else if a = ''s3:PutObject'' then Some ObjectWrite
      else if a = ''s3:DeleteObject'' then Some ObjectDelete
      else if a = ''s3:ListBucket'' then Some BucketList
      else if a = ''s3:PutObjectAcl'' then Some PermissionsManagement
      else if a = ''cloudfront:CreateInvalidation'' then Some CacheInvalidation
      else None)"

text \<open>
  A DNS label: one to 63 characters, each a lower-case letter, a digit or a hyphen, with
  no hyphen at either end.
\<close>

definition labelChar :: "char \<Rightarrow> bool" where
  "labelChar c = (c \<in> set ''abcdefghijklmnopqrstuvwxyz0123456789-'')"

definition isDnsLabel :: "string \<Rightarrow> bool" where
  "isDnsLabel s = (s \<noteq> [] \<and> length s \<le> 63 \<and> list_all labelChar s
                   \<and> hd s \<noteq> CHR ''-'' \<and> last s \<noteq> CHR ''-'')"

text \<open>The raw property patches made on a construct, in order.\<close>

datatype override = SetProperty string token_string | DeleteProperty string

fun overrideOf :: "string \<Rightarrow> stmt \<Rightarrow> override list" where
  "overrideOf t (AddPropertyOverride t' path v) = (if t' = t then [SetProperty path v] else [])"
| "overrideOf t (AddPropertyDeletionOverride t' path) = (if t' = t then [DeleteProperty path] else [])"
| "overrideOf t _ = []"

definition propertyOverrides :: "string \<Rightarrow> stmt list \<Rightarrow> override list" where
  "propertyOverrides t tr = concat (map (overrideOf t) tr)"

text \<open>
  Whether every method call of a statement list is made on constructs that statements
  before it have declared, and no identifier is declared twice; \<open>seen\<close> holds the
  identifiers declared so far.
\<close>

fun declaredBeforeUse :: "string list \<Rightarrow> stmt list \<Rightarrow> bool" where
  "declaredBeforeUse seen [] = True"
| "declaredBeforeUse seen (New i c # tr) = (i \<notin> set seen \<and> declaredBeforeUse (i # seen) tr)"
| "declaredBeforeUse seen (GrantRead b g # tr) =
     (b \<in> set seen \<and> g \<in> set seen \<and> declaredBeforeUse seen tr)"
| "declaredBeforeUse seen (AddPropertyOverride t path v # tr) =
     (t \<in> set seen \<and> declaredBeforeUse seen tr)"
| "declaredBeforeUse seen (AddPropertyDeletionOverride t path # tr) =
     (t \<in> set seen \<and> declaredBeforeUse seen tr)"
| "declaredBeforeUse seen (AddToResourcePolicy b s # tr) =
     (b \<in> set seen \<and> declaredBeforeUse seen tr)"
| "declaredBeforeUse seen (AttachInlinePolicy u p # tr) =
     (u \<in> set seen \<and> p \<in> set seen \<and> declaredBeforeUse seen tr)"

text \<open>The policies attached to a user.\<close>

fun attachedOf :: "string \<Rightarrow> stmt \<Rightarrow> string list" where
  "attachedOf u (AttachInlinePolicy u' p) = (if u' = u then [p] else [])"
| "attachedOf u _ = []"

definition attachedPolicies :: "string \<Rightarrow> stmt list \<Rightarrow> string list" where
  "attachedPolicies u tr = concat (map (attachedOf u) tr)"

text \<open>
  The host name an alias record is for: the record's name is relative to its zone, and a
  record without a name is for the zone's own name.
\<close>

definition recordFqdn :: "ARecordProps \<Rightarrow> string" where
  "recordFqdn r = (case recordName r of
                     None \<Rightarrow> zoneName (zone r)
                   | Some n \<Rightarrow> n @ ''.'' @ zoneName (zone r))"

text \<open>The rule of a distribution's error mapping that applies to an origin status.\<close>

definition errorResponseFor :: "ErrorResponse list \<Rightarrow> nat \<Rightarrow> ErrorResponse option" where
  "errorResponseFor rs code = find (\<lambda>r. httpStatus r = code) rs"

text \<open>The names a certificate covers.\<close>

definition coveredNames :: "DnsValidatedCertificateProps \<Rightarrow> string list" where
  "coveredNames c = certDomainName c # subjectAlternativeNames c"

section \<open>Properties of the viewer-request function\<close>

lemma indexOfFrom_char: "indexOfFrom s [c] i = - 1 \<longleftrightarrow> c \<notin> set s"
proof (induction s arbitrary: i)
  case Nil
  show ?case by simp
next
  case (Cons a s)
  show ?case
  proof (cases "a = c")
    case True
    then show ?thesis by simp
  next
    case False
    with Cons show ?thesis by simp
  qed
qed

lemma indexOf_char: "indexOf s [c] = - 1 \<longleftrightarrow> c \<notin> set s"
  by (simp add: indexOf_def indexOfFrom_char)

lemma charAt_last:
  assumes "s \<noteq> []"
  shows "charAt s (int (length s) - 1) = [last s]"
proof -
  from assms have n: "0 < length s" by simp
  then have "nat (int (length s) - 1) = length s - 1" by simp
  with n show ?thesis by (simp add: charAt_def last_conv_nth assms)
qed

lemma handler_uri:
  "uri (handler ev) =
     (let p = uri (request ev)
      in if 1 < length p then
           (if last p = CHR ''/'' then p @ ''index.html''
            else if CHR ''.'' \<notin> set p then p @ ''/index.html''
            else p)
         else p)"
proof (cases "1 < length (uri (request ev))")
  case True
  then have ne: "uri (request ev) \<noteq> []" by auto
  show ?thesis
    using True ne
    by (simp add: handler_def Let_def truthy_def charAt_last indexOf_char)
next
  case False
  then show ?thesis by (simp add: handler_def Let_def)
qed

section \<open>Evaluating a constructor\<close>

lemmas stack_defs = constructor_oac_def constructor_oai_def FowlerDevStack_oac_def
  FowlerDevStack_oai_def outputs_def Let_def constructs_def

section \<open>The claims\<close>

subsection \<open>C1: the rewrite rule\<close>

lemma set_path_parts: "set p = set (directoryPart p) \<union> set (finalSegment p)"
proof -
  have "set (takeWhile (\<lambda>c. c \<noteq> CHR ''/'') (rev p)) \<union> set (dropWhile (\<lambda>c. c \<noteq> CHR ''/'') (rev p))
        = set (rev p)"
    by (simp only: set_append [symmetric] takeWhile_dropWhile_id)
  then show ?thesis by (simp add: finalSegment_def directoryPart_def Un_commute)
qed

text \<open>
  C1, as amended. For every request whose path has no dot before its final segment,
  \<open>handler\<close> changes nothing but the path, and the path as follows. A path of more than
  one character that ends in a slash gets \<open>index.html\<close> appended; one of more than one
  character that does not end in a slash and whose final segment has no dot gets
  \<open>/index.html\<close> appended; one whose final segment has a dot is unchanged. A path of at
  most one character is unchanged. So \<open>/blog/\<close> becomes \<open>/blog/index.html\<close>, \<open>/about\<close>
  becomes \<open>/about/index.html\<close>, \<open>/style.css\<close> stays, and \<open>/\<close> stays \<open>/\<close>: the root
  document is left to the distribution's \<open>defaultRootObject\<close>. Nothing is said of a path
  with a dot in its directory part.
\<close>

theorem handler_rewrite:
  assumes "CHR ''.'' \<notin> set (directoryPart (uri (request ev)))"
  shows "handler ev =
     (request ev)\<lparr>uri :=
        (if 1 < length (uri (request ev)) then
           (if last (uri (request ev)) = CHR ''/'' then uri (request ev) @ ''index.html''
            else if CHR ''.'' \<notin> set (finalSegment (uri (request ev)))
              then uri (request ev) @ ''/index.html''
            else uri (request ev))
         else uri (request ev))\<rparr>
   \<and> uri (handler \<lparr>request = \<lparr>uri = ''/blog/''\<rparr>\<rparr>) = ''/blog/index.html''
   \<and> uri (handler \<lparr>request = \<lparr>uri = ''/about''\<rparr>\<rparr>) = ''/about/index.html''
   \<and> uri (handler \<lparr>request = \<lparr>uri = ''/style.css''\<rparr>\<rparr>) = ''/style.css''
   \<and> uri (handler \<lparr>request = \<lparr>uri = ''/''\<rparr>\<rparr>) = ''/''"
proof -
  from assms set_path_parts [of "uri (request ev)"]
  have dot: "CHR ''.'' \<notin> set (finalSegment (uri (request ev))) \<longleftrightarrow> CHR ''.'' \<notin> set (uri (request ev))"
    by auto
  have gen: "handler ev =
     (request ev)\<lparr>uri :=
        (if 1 < length (uri (request ev)) then
           (if last (uri (request ev)) = CHR ''/'' then uri (request ev) @ ''index.html''
            else if CHR ''.'' \<notin> set (finalSegment (uri (request ev)))
              then uri (request ev) @ ''/index.html''
            else uri (request ev))
         else uri (request ev))\<rparr>"
  proof (cases "1 < length (uri (request ev))")
    case True
    then have ne: "uri (request ev) \<noteq> []" by auto
    show ?thesis
      unfolding dot using True ne
      by (simp add: handler_def Let_def truthy_def charAt_last indexOf_char)
  next
    case False
    then show ?thesis by (simp add: handler_def Let_def)
  qed
  have e1: "uri (handler \<lparr>request = \<lparr>uri = ''/blog/''\<rparr>\<rparr>) = ''/blog/index.html''"
    by (simp add: handler_uri)
  have e2: "uri (handler \<lparr>request = \<lparr>uri = ''/about''\<rparr>\<rparr>) = ''/about/index.html''"
    by (simp add: handler_uri)
  have e3: "uri (handler \<lparr>request = \<lparr>uri = ''/style.css''\<rparr>\<rparr>) = ''/style.css''"
    by (simp add: handler_uri)
  have e4: "uri (handler \<lparr>request = \<lparr>uri = ''/''\<rparr>\<rparr>) = ''/''"
    by (simp add: handler_uri)
  from gen e1 e2 e3 e4 show ?thesis by blast
qed

text \<open>The theorem of C1 at the path \<open>/blog/first-post\<close>.\<close>

theorem handler_rewrite_witness:
  "CHR ''.'' \<notin> set (directoryPart ''/blog/first-post'')
   \<and> handler \<lparr>request = \<lparr>uri = ''/blog/first-post''\<rparr>\<rparr> = \<lparr>uri = ''/blog/first-post/index.html''\<rparr>"
proof -
  have h: "CHR ''.'' \<notin> set (directoryPart (uri (request \<lparr>request = \<lparr>uri = ''/blog/first-post''\<rparr>\<rparr>)))"
    by (simp add: directoryPart_def)
  from handler_rewrite [OF h] h show ?thesis
    by (simp add: finalSegment_def)
qed

text \<open>
  C1 as stated fails at two inputs. The claim says \<open>/\<close> becomes \<open>/index.html\<close>; the
  guard \<^verbatim>\<open>uri.length > 1\<close> leaves it alone. The claim looks for a dot in the final
  segment only; \<^verbatim>\<open>uri.indexOf('.')\<close> searches the whole path, so \<open>/v1.2/about\<close>,
  whose final segment has no dot, is not rewritten.
\<close>

theorem handler_root_counterexample:
  "uri (handler \<lparr>request = \<lparr>uri = ''/''\<rparr>\<rparr>) \<noteq> ''/index.html''
   \<and> CHR ''.'' \<notin> set (finalSegment ''/v1.2/about'')
   \<and> uri (handler \<lparr>request = \<lparr>uri = ''/v1.2/about''\<rparr>\<rparr>) \<noteq> ''/v1.2/about/index.html''"
  by (simp add: handler_uri finalSegment_def)

subsection \<open>C2: the bucket's resource policy\<close>



subsection \<open>C3: the deployment policy\<close>

text \<open>
  C3, as amended. In both constructors, for every domain and account: there is one user,
  \<open>GitHubActionsUser\<close>, with one attached policy, \<open>DeployPolicy\<close>, the only policy
  declared. It has two statements, both with effect allow. The first allows
  \<open>s3:PutObject\<close>, \<open>s3:PutObjectAcl\<close>, \<open>s3:GetObject\<close>, \<open>s3:DeleteObject\<close> and
  \<open>s3:ListBucket\<close>, that is writing, reading, deleting and listing objects and, beyond
  those, setting an object's ACL, on the ARN of the stack's bucket and on that ARN
  followed by \<open>/*\<close>; the second allows \<open>cloudfront:CreateInvalidation\<close> on the ARN of the
  stack's distribution. No other action and no other resource occurs.
\<close>

theorem deploy_policy_scope:
  "tr = constructor_oac d p \<or> tr = constructor_oai d p \<Longrightarrow>
   map fst (users tr) = [''GitHubActionsUser'']
   \<and> attachedPolicies ''GitHubActionsUser'' tr = [''DeployPolicy'']
   \<and> map fst (policies tr) = [''DeployPolicy'']
   \<and> map (map effect \<circ> statements \<circ> snd) (policies tr) = [[Some ALLOW, Some ALLOW]]
   \<and> map (map actions \<circ> statements \<circ> snd) (policies tr)
       = [[[''s3:PutObject'', ''s3:PutObjectAcl'', ''s3:GetObject'',
            ''s3:DeleteObject'', ''s3:ListBucket''],
           [''cloudfront:CreateInvalidation'']]]
   \<and> map (map (map actionKind \<circ> actions) \<circ> statements \<circ> snd) (policies tr)
       = [[[Some ObjectWrite, Some PermissionsManagement, Some ObjectRead,
            Some ObjectDelete, Some BucketList],
           [Some CacheInvalidation]]]
   \<and> map (map resources \<circ> statements \<circ> snd) (policies tr)
       = [[[[Ref ''SiteBucket'' ''bucketArn''],
            [Ref ''SiteBucket'' ''bucketArn'', Lit ''/*'']],
           [[Lit ''arn:aws:cloudfront::'', Lit (account (env p)), Lit '':distribution/'',
             Ref ''Distribution'' ''distributionId'']]]]
   \<and> map fst (buckets tr) = [''SiteBucket'']
   \<and> map fst (distributions tr) = [''Distribution'']"
  by (auto simp add: stack_defs users_def attachedPolicies_def policies_def deployPolicy_def
      bucketArn_def distributionArn_def distributionId_def buckets_def distributions_def
      actionKind_def)

text \<open>The theorem of C3 at the account \<open>123456789012\<close>, for each constructor.\<close>

theorem deploy_policy_scope_witness:
  "map (map actions \<circ> statements \<circ> snd)
     (policies (FowlerDevStack_oac ''FowlerDevStack''
        \<lparr>env = \<lparr>account = ''123456789012'', region = ''ca-central-1''\<rparr>\<rparr>))
   = [[[''s3:PutObject'', ''s3:PutObjectAcl'', ''s3:GetObject'',
        ''s3:DeleteObject'', ''s3:ListBucket''],
       [''cloudfront:CreateInvalidation'']]]
   \<and> map (map resources \<circ> statements \<circ> snd)
     (policies (FowlerDevStack_oai ''FowlerDevStack''
        \<lparr>env = \<lparr>account = ''123456789012'', region = ''ca-central-1''\<rparr>\<rparr>))
   = [[[[Ref ''SiteBucket'' ''bucketArn''],
        [Ref ''SiteBucket'' ''bucketArn'', Lit ''/*'']],
       [[Lit ''arn:aws:cloudfront::'', Lit ''123456789012'', Lit '':distribution/'',
         Ref ''Distribution'' ''distributionId'']]]]"
  using deploy_policy_scope [of "FowlerDevStack_oac ''FowlerDevStack''
        \<lparr>env = \<lparr>account = ''123456789012'', region = ''ca-central-1''\<rparr>\<rparr>" "''fowler.dev''"
        "\<lparr>env = \<lparr>account = ''123456789012'', region = ''ca-central-1''\<rparr>\<rparr>"]
    deploy_policy_scope [of "FowlerDevStack_oai ''FowlerDevStack''
        \<lparr>env = \<lparr>account = ''123456789012'', region = ''ca-central-1''\<rparr>\<rparr>" "''fowler.dev''"
        "\<lparr>env = \<lparr>account = ''123456789012'', region = ''ca-central-1''\<rparr>\<rparr>"]
  by (simp add: FowlerDevStack_oac_def FowlerDevStack_oai_def)

text \<open>
  C3 as stated fails for both constructors: the first statement of the policy allows
  \<open>s3:PutObjectAcl\<close>, which manages permissions and is none of reading, writing,
  deleting and listing.
\<close>

theorem deploy_policy_acl_counterexample:
  "map (map (map actionKind \<circ> actions) \<circ> statements \<circ> snd)
     (policies (FowlerDevStack_oac ''FowlerDevStack''
        \<lparr>env = \<lparr>account = ''123456789012'', region = ''ca-central-1''\<rparr>\<rparr>))
     = [[[Some ObjectWrite, Some PermissionsManagement, Some ObjectRead,
          Some ObjectDelete, Some BucketList],
         [Some CacheInvalidation]]]
   \<and> map (map (map actionKind \<circ> actions) \<circ> statements \<circ> snd)
     (policies (FowlerDevStack_oai ''FowlerDevStack''
        \<lparr>env = \<lparr>account = ''123456789012'', region = ''ca-central-1''\<rparr>\<rparr>))
     = [[[Some ObjectWrite, Some PermissionsManagement, Some ObjectRead,
          Some ObjectDelete, Some BucketList],
         [Some CacheInvalidation]]]
   \<and> actionKind ''s3:PutObjectAcl'' = Some PermissionsManagement
   \<and> PermissionsManagement \<notin> {ObjectRead, ObjectWrite, ObjectDelete, BucketList}"
  by (simp add: stack_defs policies_def deployPolicy_def actionKind_def)

subsection \<open>C4: public access stays blocked\<close>

text \<open>
  C4. In both constructors, for every domain and every stack properties, the one bucket
  is declared with all four switches of the public-access block on, without public read
  access and without a canned ACL, and no entry of its resource policy names the
  anonymous principal. This holds with the website configuration of
  \<^verbatim>\<open>src/infra/lib/fowler-dev-stack.ts\<close> as well as without one: no input reaches these
  properties.
\<close>

theorem public_access_blocked:
  "map (blockPublicAcls \<circ> blockPublicAccess \<circ> snd) (buckets (constructor_oac d p)) = [True]
   \<and> map (blockPublicPolicy \<circ> blockPublicAccess \<circ> snd) (buckets (constructor_oac d p)) = [True]
   \<and> map (ignorePublicAcls \<circ> blockPublicAccess \<circ> snd) (buckets (constructor_oac d p)) = [True]
   \<and> map (restrictPublicBuckets \<circ> blockPublicAccess \<circ> snd) (buckets (constructor_oac d p)) = [True]
   \<and> map (publicReadAccess \<circ> snd) (buckets (constructor_oac d p)) = [False]
   \<and> map (accessControl \<circ> snd) (buckets (constructor_oac d p)) = [None]
   \<and> map (websiteIndexDocument \<circ> snd) (buckets (constructor_oac d p)) = [None]
   \<and> AnyPrincipal \<notin> set (concat (map entryPrincipals
         (bucketPolicy ''SiteBucket'' (constructor_oac d p))))
   \<and> map (blockPublicAcls \<circ> blockPublicAccess \<circ> snd) (buckets (constructor_oai d p)) = [True]
   \<and> map (blockPublicPolicy \<circ> blockPublicAccess \<circ> snd) (buckets (constructor_oai d p)) = [True]
   \<and> map (ignorePublicAcls \<circ> blockPublicAccess \<circ> snd) (buckets (constructor_oai d p)) = [True]
   \<and> map (restrictPublicBuckets \<circ> blockPublicAccess \<circ> snd) (buckets (constructor_oai d p)) = [True]
   \<and> map (publicReadAccess \<circ> snd) (buckets (constructor_oai d p)) = [False]
   \<and> map (accessControl \<circ> snd) (buckets (constructor_oai d p)) = [None]
   \<and> map (websiteIndexDocument \<circ> snd) (buckets (constructor_oai d p)) = [Some ''index.html'']
   \<and> AnyPrincipal \<notin> set (concat (map entryPrincipals
         (bucketPolicy ''SiteBucket'' (constructor_oai d p))))"
  by (simp add: stack_defs buckets_def bucketPolicy_def BLOCK_ALL_def)

subsection \<open>C5: the error mapping\<close>

text \<open>
  C5, as amended. The distribution of \<^verbatim>\<open>src/unnamed/part_000\<close> maps an origin status
  403 and an origin status 404 each to the page \<open>/404.html\<close> with outward status 404,
  cached for 30 minutes (1800 seconds). The distribution of
  \<^verbatim>\<open>src/infra/lib/fowler-dev-stack.ts\<close> maps the origin status 404 in the same way and
  has no rule for 403.
\<close>

theorem error_mapping:
  "map (\<lambda>x. errorResponseFor (errorResponses (snd x)) 403) (distributions (constructor_oac d p))
     = [Some \<lparr>httpStatus = 403, responseHttpStatus = 404,
              responsePagePath = ''/404.html'', ttl = minutes 30\<rparr>]
   \<and> map (\<lambda>x. errorResponseFor (errorResponses (snd x)) 404) (distributions (constructor_oac d p))
     = [Some \<lparr>httpStatus = 404, responseHttpStatus = 404,
              responsePagePath = ''/404.html'', ttl = minutes 30\<rparr>]
   \<and> map (\<lambda>x. errorResponseFor (errorResponses (snd x)) 404) (distributions (constructor_oai d p))
     = [Some \<lparr>httpStatus = 404, responseHttpStatus = 404,
              responsePagePath = ''/404.html'', ttl = minutes 30\<rparr>]
   \<and> map (\<lambda>x. errorResponseFor (errorResponses (snd x)) 403) (distributions (constructor_oai d p))
     = [None]
   \<and> toSeconds (minutes 30) = 1800"
  by (simp add: stack_defs distributions_def errorResponseFor_def minutes_def)

text \<open>
  C5 as stated fails for the constructor of \<^verbatim>\<open>src/infra/lib/fowler-dev-stack.ts\<close>: its
  distribution has no error response for the origin status 403.
\<close>

theorem error_mapping_counterexample:
  "map (\<lambda>x. errorResponseFor (errorResponses (snd x)) 403)
     (distributions (FowlerDevStack_oai ''FowlerDevStack''
        \<lparr>env = \<lparr>account = ''123456789012'', region = ''ca-central-1''\<rparr>\<rparr>)) = [None]"
  by (simp add: stack_defs distributions_def errorResponseFor_def)

subsection \<open>C6: alias records and served host names\<close>

text \<open>
  C6. In both constructors, for every domain \<open>d\<close>: the host names of the alias records
  declared are \<open>d\<close> and \<open>www.d\<close>, which are exactly the distribution's \<open>domainNames\<close>;
  both records lie in the zone looked up for \<open>d\<close> and both alias the stack's one
  distribution. A record's name is read relative to its zone.
\<close>

theorem alias_records_match_domain_names:
  "tr = constructor_oac d p \<or> tr = constructor_oai d p \<Longrightarrow>
   set (map (recordFqdn \<circ> snd) (aRecords tr)) = set (concat (map (domainNames \<circ> snd) (distributions tr)))
   \<and> map (recordFqdn \<circ> snd) (aRecords tr) = [d, ''www.'' @ d]
   \<and> map (domainNames \<circ> snd) (distributions tr) = [[d, ''www.'' @ d]]
   \<and> map (target \<circ> snd) (aRecords tr)
       = [CloudFrontTarget ''Distribution'', CloudFrontTarget ''Distribution'']
   \<and> map (zone \<circ> snd) (aRecords tr) = [FromLookup d, FromLookup d]
   \<and> map fst (distributions tr) = [''Distribution'']"
  by (auto simp add: stack_defs aRecords_def distributions_def recordFqdn_def)

text \<open>The theorem of C6 at the domain \<open>fowler.dev\<close>, for each constructor.\<close>

theorem alias_records_match_domain_names_witness:
  "map (recordFqdn \<circ> snd)
     (aRecords (FowlerDevStack_oac ''FowlerDevStack''
        \<lparr>env = \<lparr>account = ''123456789012'', region = ''ca-central-1''\<rparr>\<rparr>))
     = [''fowler.dev'', ''www.fowler.dev'']
   \<and> map (domainNames \<circ> snd)
     (distributions (FowlerDevStack_oai ''FowlerDevStack''
        \<lparr>env = \<lparr>account = ''123456789012'', region = ''ca-central-1''\<rparr>\<rparr>))
     = [[''fowler.dev'', ''www.fowler.dev'']]"
  using alias_records_match_domain_names [of "FowlerDevStack_oac ''FowlerDevStack''
        \<lparr>env = \<lparr>account = ''123456789012'', region = ''ca-central-1''\<rparr>\<rparr>" "''fowler.dev''"
        "\<lparr>env = \<lparr>account = ''123456789012'', region = ''ca-central-1''\<rparr>\<rparr>"]
    alias_records_match_domain_names [of "FowlerDevStack_oai ''FowlerDevStack''
        \<lparr>env = \<lparr>account = ''123456789012'', region = ''ca-central-1''\<rparr>\<rparr>" "''fowler.dev''"
        "\<lparr>env = \<lparr>account = ''123456789012'', region = ''ca-central-1''\<rparr>\<rparr>"]
  by (simp add: FowlerDevStack_oac_def FowlerDevStack_oai_def)

subsection \<open>C7: the bucket name\<close>

lemma sanitizedDomain_map:
  "sanitizedDomain d = map (\<lambda>c. if c = CHR ''.'' then CHR ''-'' else c) d"
  by (induction d) (simp_all add: sanitizedDomain_def replaceAll_def)

lemma set_sanitizedDomain:
  "set (sanitizedDomain d) \<union> {CHR ''-''} = (set d - {CHR ''.''}) \<union> {CHR ''-''}"
  by (auto simp add: sanitizedDomain_map)

lemma set_bucketName_oac:
  "set (bucketName_oac d a) = (set d - {CHR ''.''}) \<union> set a \<union> set ''-hugo-site''"
proof -
  have "set (bucketName_oac d a) = (set (sanitizedDomain d) \<union> {CHR ''-''}) \<union> set a \<union> set ''-hugo-site''"
    by (auto simp add: bucketName_oac_def)
  also have "\<dots> = ((set d - {CHR ''.''}) \<union> {CHR ''-''}) \<union> set a \<union> set ''-hugo-site''"
    by (simp only: set_sanitizedDomain)
  also have "\<dots> = (set d - {CHR ''.''}) \<union> set a \<union> set ''-hugo-site''"
    by auto
  finally show ?thesis .
qed

lemma labelChar_hyphen: "labelChar (CHR ''-'')"
  by (simp add: labelChar_def)

lemma labelChar_sanitized:
  assumes "list_all (\<lambda>c. labelChar c \<or> c = CHR ''.'') d"
  shows "list_all labelChar (sanitizedDomain d)"
  using assms by (induction d) (auto simp add: sanitizedDomain_map labelChar_hyphen)

lemma labelChar_suffix: "list_all labelChar ''-hugo-site''"
  by (simp add: labelChar_def)

lemma bucketName_oac_label:
  assumes ne: "d \<noteq> []"
    and chars: "list_all (\<lambda>c. labelChar c \<or> c = CHR ''.'') d"
    and first: "hd d \<noteq> CHR ''-''" "hd d \<noteq> CHR ''.''"
    and acct: "list_all labelChar a"
    and len: "length d + length a + 11 \<le> 63"
  shows "isDnsLabel (bucketName_oac d a)"
proof -
  have nonempty: "bucketName_oac d a \<noteq> []"
    by (simp add: bucketName_oac_def)
  have length: "length (bucketName_oac d a) = length d + length a + 11"
    by (simp add: bucketName_oac_def sanitizedDomain_map)
  have all: "list_all labelChar (bucketName_oac d a)"
    using labelChar_sanitized [OF chars] acct labelChar_suffix labelChar_hyphen
    by (simp add: bucketName_oac_def)
  from ne obtain c cs where d: "d = c # cs" by (cases d) auto
  with first have "hd (bucketName_oac d a) = c" "c \<noteq> CHR ''-''"
    by (simp_all add: bucketName_oac_def sanitizedDomain_map)
  then have head: "hd (bucketName_oac d a) \<noteq> CHR ''-''" by simp
  have "last (bucketName_oac d a) = CHR ''e''"
    by (simp add: bucketName_oac_def)
  then have tail: "last (bucketName_oac d a) \<noteq> CHR ''-''" by simp
  from nonempty length len all head tail show ?thesis
    by (simp add: isDnsLabel_def)
qed

text \<open>
  C7, as amended. In \<^verbatim>\<open>src/unnamed/part_000\<close> the bucket's name is the domain with every
  dot replaced by a hyphen, then \<open>-\<close>, the account identifier and \<open>-hugo-site\<close>. Its
  characters are those of the domain other than the dot, those of the account identifier
  and those of \<open>-hugo-site\<close>. It is a DNS label whenever the domain is a host name (not
  empty, made of lower-case letters, digits, hyphens and dots, starting with neither a
  hyphen nor a dot), the account identifier is made of label characters, and the two
  together have at most 52 characters; and for one domain, different accounts get
  different names. In \<^verbatim>\<open>src/infra/lib/fowler-dev-stack.ts\<close> the name is the domain
  followed by \<open>-hugo-site\<close>: the dots stay and the account does not enter.
\<close>

theorem bucket_name_derivation:
  "map (bucketName \<circ> snd) (buckets (constructor_oac d p)) = [bucketName_oac d (account (env p))]
   \<and> bucketName_oac d a
       = map (\<lambda>c. if c = CHR ''.'' then CHR ''-'' else c) d @ ''-'' @ a @ ''-hugo-site''
   \<and> set (bucketName_oac d a) = (set d - {CHR ''.''}) \<union> set a \<union> set ''-hugo-site''
   \<and> (d \<noteq> [] \<and> list_all (\<lambda>c. labelChar c \<or> c = CHR ''.'') d
        \<and> hd d \<noteq> CHR ''-'' \<and> hd d \<noteq> CHR ''.''
        \<and> list_all labelChar a \<and> length d + length a + 11 \<le> 63
      \<longrightarrow> isDnsLabel (bucketName_oac d a))
   \<and> (bucketName_oac d a = bucketName_oac d a' \<longrightarrow> a = a')
   \<and> map (bucketName \<circ> snd) (buckets (constructor_oai d p)) = [d @ ''-hugo-site'']"
proof -
  have 1: "map (bucketName \<circ> snd) (buckets (constructor_oac d p)) = [bucketName_oac d (account (env p))]"
    by (simp add: stack_defs buckets_def)
  have 2: "bucketName_oac d a
       = map (\<lambda>c. if c = CHR ''.'' then CHR ''-'' else c) d @ ''-'' @ a @ ''-hugo-site''"
    by (simp add: bucketName_oac_def sanitizedDomain_map)
  have 3: "set (bucketName_oac d a) = (set d - {CHR ''.''}) \<union> set a \<union> set ''-hugo-site''"
    by (rule set_bucketName_oac)
  have 4: "d \<noteq> [] \<and> list_all (\<lambda>c. labelChar c \<or> c = CHR ''.'') d
        \<and> hd d \<noteq> CHR ''-'' \<and> hd d \<noteq> CHR ''.''
        \<and> list_all labelChar a \<and> length d + length a + 11 \<le> 63
      \<longrightarrow> isDnsLabel (bucketName_oac d a)"
    using bucketName_oac_label [of d a] by blast
  have 5: "bucketName_oac d a = bucketName_oac d a' \<longrightarrow> a = a'"
    by (simp add: bucketName_oac_def)
  have 6: "map (bucketName \<circ> snd) (buckets (constructor_oai d p)) = [d @ ''-hugo-site'']"
    by (simp add: stack_defs buckets_def bucketName_oai_def)
  from 1 2 3 4 5 6 show ?thesis by blast
qed

text \<open>
  The theorem of C7 at the domain \<open>fowler.dev\<close> and the account \<open>123456789012\<close>: the
  name is \<open>fowler-dev-123456789012-hugo-site\<close>, a DNS label.
\<close>

theorem bucket_name_derivation_witness:
  "(''fowler.dev'' \<noteq> [] \<and> list_all (\<lambda>c. labelChar c \<or> c = CHR ''.'') ''fowler.dev''
      \<and> hd ''fowler.dev'' \<noteq> CHR ''-'' \<and> hd ''fowler.dev'' \<noteq> CHR ''.''
      \<and> list_all labelChar ''123456789012''
      \<and> length ''fowler.dev'' + length ''123456789012'' + 11 \<le> 63)
   \<and> isDnsLabel (bucketName_oac ''fowler.dev'' ''123456789012'')
   \<and> bucketName_oac ''fowler.dev'' ''123456789012'' = ''fowler-dev-123456789012-hugo-site''
   \<and> map (bucketName \<circ> snd)
       (buckets (FowlerDevStack_oac ''FowlerDevStack''
          \<lparr>env = \<lparr>account = ''123456789012'', region = ''ca-central-1''\<rparr>\<rparr>))
     = [''fowler-dev-123456789012-hugo-site'']"
proof -
  have h: "''fowler.dev'' \<noteq> [] \<and> list_all (\<lambda>c. labelChar c \<or> c = CHR ''.'') ''fowler.dev''
      \<and> hd ''fowler.dev'' \<noteq> CHR ''-'' \<and> hd ''fowler.dev'' \<noteq> CHR ''.''
      \<and> list_all labelChar ''123456789012''
      \<and> length ''fowler.dev'' + length ''123456789012'' + 11 \<le> 63"
    by (simp add: labelChar_def)
  note t = bucket_name_derivation [of "''fowler.dev''"
      "\<lparr>env = \<lparr>account = ''123456789012'', region = ''ca-central-1''\<rparr>\<rparr>"
      "''123456789012''" "''123456789012''"]
  have label: "isDnsLabel (bucketName_oac ''fowler.dev'' ''123456789012'')"
    by (rule t [THEN conjunct2, THEN conjunct2, THEN conjunct2, THEN conjunct1, THEN mp, OF h])
  have name: "bucketName_oac ''fowler.dev'' ''123456789012'' = ''fowler-dev-123456789012-hugo-site''"
    by (simp add: t [THEN conjunct2, THEN conjunct1])
  have decl: "map (bucketName \<circ> snd)
       (buckets (FowlerDevStack_oac ''FowlerDevStack''
          \<lparr>env = \<lparr>account = ''123456789012'', region = ''ca-central-1''\<rparr>\<rparr>))
     = [''fowler-dev-123456789012-hugo-site'']"
    unfolding FowlerDevStack_oac_def t [THEN conjunct1] by (simp add: name)
  show ?thesis
    by (rule conjI [OF h conjI [OF label conjI [OF name decl]]])
qed

text \<open>
  C7 as stated fails for the constructor of \<^verbatim>\<open>src/infra/lib/fowler-dev-stack.ts\<close>: two
  different accounts get the same bucket name, and that name contains a dot.
\<close>

theorem bucket_name_counterexample:
  "map (bucketName \<circ> snd)
     (buckets (FowlerDevStack_oai ''FowlerDevStack''
        \<lparr>env = \<lparr>account = ''111111111111'', region = ''ca-central-1''\<rparr>\<rparr>))
     = [''fowler.dev-hugo-site'']
   \<and> map (bucketName \<circ> snd)
     (buckets (FowlerDevStack_oai ''FowlerDevStack''
        \<lparr>env = \<lparr>account = ''222222222222'', region = ''ca-central-1''\<rparr>\<rparr>))
     = [''fowler.dev-hugo-site'']
   \<and> CHR ''.'' \<in> set ''fowler.dev-hugo-site''"
  by (simp add: stack_defs buckets_def bucketName_oai_def)

subsection \<open>C8: binding the origin access control\<close>

text \<open>
  C8. The constructor of \<^verbatim>\<open>src/unnamed/part_000\<close>, for every domain and stack
  properties, declares one origin access control, \<open>OAC\<close>, with signing behaviour
  \<open>always\<close> and signing protocol \<open>sigv4\<close>. On the distribution's resource it makes
  three raw patches, in this order: the origin's \<open>OriginAccessControlId\<close> is set to the
  identifier of \<open>OAC\<close>, the origin's \<open>S3OriginConfig.OriginAccessIdentity\<close> is set to
  the empty string, and the origin's \<open>CustomOriginConfig\<close> is deleted. Every method call
  of the constructor, these patches among them, comes after the declaration of the
  construct it is made on.
\<close>

theorem oac_binding:
  "map fst (originAccessControls (constructor_oac d p)) = [''OAC'']
   \<and> map (signingBehavior \<circ> snd) (originAccessControls (constructor_oac d p)) = [''always'']
   \<and> map (signingProtocol \<circ> snd) (originAccessControls (constructor_oac d p)) = [''sigv4'']
   \<and> map fst (distributions (constructor_oac d p)) = [''Distribution'']
   \<and> propertyOverrides ''Distribution'' (constructor_oac d p)
       = [SetProperty ''DistributionConfig.Origins.0.OriginAccessControlId''
            [Ref ''OAC'' ''attrId''],
          SetProperty ''DistributionConfig.Origins.0.S3OriginConfig.OriginAccessIdentity''
            [Lit []],
          DeleteProperty ''DistributionConfig.Origins.0.CustomOriginConfig'']
   \<and> resolve \<rho> [Lit []] = []
   \<and> declaredBeforeUse [] (constructor_oac d p)"
  by (simp add: stack_defs originAccessControls_def distributions_def propertyOverrides_def
      resolve_def)

subsection \<open>C9: the certificate\<close>

text \<open>
  C9. In both constructors, for every domain \<open>d\<close> and every stack properties, whatever
  their region: one certificate is declared, DNS-validated, for \<open>d\<close> with the single
  alternative name \<open>www.d\<close>, against the zone looked up for \<open>d\<close>, in the region
  \<open>us-east-1\<close>; it is the certificate the distribution uses.
\<close>

theorem certificate_request:
  "tr = constructor_oac d p \<or> tr = constructor_oai d p \<Longrightarrow>
   map fst (certificates tr) = [''SiteCertificate'']
   \<and> map (coveredNames \<circ> snd) (certificates tr) = [[d, ''www.'' @ d]]
   \<and> map (hostedZone \<circ> snd) (certificates tr) = map snd (hostedZones tr)
   \<and> map snd (hostedZones tr) = [FromLookup d]
   \<and> map (certRegion \<circ> snd) (certificates tr) = [Some ''us-east-1'']
   \<and> map (certificate \<circ> snd) (distributions tr) = [''SiteCertificate'']"
  by (auto simp add: stack_defs certificates_def hostedZones_def distributions_def
      coveredNames_def)

text \<open>
  The theorem of C9 for stacks deployed to \<open>ca-central-1\<close> and to \<open>eu-west-1\<close>.
\<close>

theorem certificate_request_witness:
  "map (certRegion \<circ> snd)
     (certificates (FowlerDevStack_oac ''FowlerDevStack''
        \<lparr>env = \<lparr>account = ''123456789012'', region = ''ca-central-1''\<rparr>\<rparr>))
     = [Some ''us-east-1'']
   \<and> map (coveredNames \<circ> snd)
     (certificates (FowlerDevStack_oai ''FowlerDevStack''
        \<lparr>env = \<lparr>account = ''123456789012'', region = ''eu-west-1''\<rparr>\<rparr>))
     = [[''fowler.dev'', ''www.fowler.dev'']]"
  using certificate_request [of "FowlerDevStack_oac ''FowlerDevStack''
        \<lparr>env = \<lparr>account = ''123456789012'', region = ''ca-central-1''\<rparr>\<rparr>" "''fowler.dev''"
        "\<lparr>env = \<lparr>account = ''123456789012'', region = ''ca-central-1''\<rparr>\<rparr>"]
    certificate_request [of "FowlerDevStack_oai ''FowlerDevStack''
        \<lparr>env = \<lparr>account = ''123456789012'', region = ''eu-west-1''\<rparr>\<rparr>" "''fowler.dev''"
        "\<lparr>env = \<lparr>account = ''123456789012'', region = ''eu-west-1''\<rparr>\<rparr>"]
  by (simp add: FowlerDevStack_oac_def FowlerDevStack_oai_def)

end
